theory Spec2Isabelle
  imports Main "HOL-Library.Multiset" "HOL-Library.Sublist"
begin

section \<open>Foundation layer\<close>

text \<open>
  The library builds on a foundation module (\<^verbatim>\<open>@eyebraus/core\<close>) whose code is not part
  of the repository.  The pieces the collections use are modelled here from the
  specification's description of them.

  TypeScript types are erased at run time, so a value read from an object or an array can
  be \<^verbatim>\<open>undefined\<close> even where the declared type says \<^verbatim>\<open>TValue extends Defined\<close>.
  A run-time value is one of the two absence markers, the number \<^verbatim>\<open>NaN\<close>, or another
  defined value.  The values of the model are primitive, and \<open>Defined\<close> values are taken
  up to \<^verbatim>\<open>===\<close> (the two zeros are one value).  An object as a value is compared by
  reference and behaves like a \<open>Defined\<close> value except in two places: it can be the very
  member that an object inherits under some name (as in \<^verbatim>\<open>set({}, 'constructor', Object)\<close>,
  which finds the value present and returns its argument), and assigned to the key
  \<^verbatim>\<open>__proto__\<close> it replaces the prototype of the receiver.  Objects as values are not
  part of the model; the statements below about a key that is written exclude the names
  of the inherited members, so that they hold of such values as well.

  \<^verbatim>\<open>NaN\<close> is kept apart because the two equalities of the code differ on it: \<^verbatim>\<open>===\<close> is
  false of \<^verbatim>\<open>NaN\<close> and itself, while the membership test of a \<^verbatim>\<open>Set\<close> treats \<^verbatim>\<open>NaN\<close> as
  equal to itself.  The latter is HOL equality, the former is \<open>strict_eq\<close>.
\<close>

datatype 'a js = Undefined | Null | NaN | Defined 'a


text \<open>Modelled from the spec: the optional value, "Something" wrapping one value or "Nothing".\<close>

datatype 'a Maybe = Nothing | Something 'a

text \<open>Modelled from the spec: the is-absent predicate of the foundation layer.\<close>

definition isNone :: "'a js \<Rightarrow> bool" where
  "isNone x = (case x of Undefined \<Rightarrow> True | Null \<Rightarrow> True | _ \<Rightarrow> False)"

text \<open>Modelled from the spec: wrap a possibly-absent value into Nothing/Something.\<close>

definition wrap :: "'a js \<Rightarrow> 'a js Maybe" where
  "wrap x = (if isNone x then Nothing else Something x)"

text \<open>Modelled from the spec: the two-element tuple \<^verbatim>\<open>Pair(a, b)\<close> is the HOL pair \<open>(a, b)\<close>,
  with its two accessors.\<close>

definition first :: "'a \<times> 'b \<Rightarrow> 'a" where
  "first p = fst p"

definition second :: "'a \<times> 'b \<Rightarrow> 'b" where
  "second p = snd p"

section \<open>Objects and the store\<close>

text \<open>
  A \<^verbatim>\<open>Dict\<close> is a plain JavaScript object.  Several operations return either their
  argument itself or a newly allocated object, and callers compare the two with reference
  equality, so objects live in a store and a \<^verbatim>\<open>Dict\<close> value is a reference into it.
  Allocation appends a cell; the reference of a new object is the old size of the store.

  An object has its own enumerable properties, in enumeration order, and a prototype.
  An object literal has the prototype \<^verbatim>\<open>Object.prototype\<close>, from which it inherits the
  members listed in \<open>prototype_members\<close>.  None of them is enumerable.  All are writable
  data properties, which an assignment shadows by an own property, except \<^verbatim>\<open>__proto__\<close>:
  that one is an accessor, whose setter replaces the prototype of the receiver when it is
  given \<^verbatim>\<open>null\<close> (or an object) and does nothing when it is given a primitive value.

  Properties are enumerated in insertion order; the engine's rule that integer-like keys
  come first is not modelled, and no statement below depends on the enumeration order.
\<close>

type_synonym ref = nat

datatype prototype = Object_prototype | No_prototype

datatype 'v object = Object (prototype: prototype) (props: "(string \<times> 'v js) list")

type_synonym 'v heap = "'v object list"

text \<open>The object literal \<^verbatim>\<open>{}\<close>.\<close>

definition empty_object :: "'v object" where
  "empty_object = Object Object_prototype []"

definition prototype_members :: "string list" where
  "prototype_members =
     [''constructor'', ''__defineGetter__'', ''__defineSetter__'', ''hasOwnProperty'',
      ''__lookupGetter__'', ''__lookupSetter__'', ''isPrototypeOf'', ''propertyIsEnumerable'',
      ''toString'', ''valueOf'', ''__proto__'', ''toLocaleString'']"

definition alloc :: "'c list \<Rightarrow> 'c \<Rightarrow> ref \<times> 'c list" where
  "alloc h cell = (length h, h @ [cell])"

definition deref :: "'c list \<Rightarrow> ref \<Rightarrow> 'c" where
  "deref h r = h ! r"

text \<open>\<^verbatim>\<open>Object.keys(ob)\<close> and the keys visited by \<^verbatim>\<open>for (const key in ob)\<close>: no inherited
  member is enumerable.\<close>

definition own_keys :: "'v object \<Rightarrow> string list" where
  "own_keys ob = map fst (props ob)"

text \<open>\<^verbatim>\<open>Object.hasOwn(ob, key)\<close>.\<close>

definition hasOwn :: "'v object \<Rightarrow> string \<Rightarrow> bool" where
  "hasOwn ob key = (key \<in> set (own_keys ob))"

text \<open>
  The read \<^verbatim>\<open>ob[key]\<close> finds an own property, or else a member inherited from
  \<^verbatim>\<open>Object.prototype\<close>, or else nothing, in which case it evaluates to \<^verbatim>\<open>undefined\<close>.
  An inherited member is a function (or, under \<^verbatim>\<open>__proto__\<close>, the prototype itself): an
  object, which is strictly equal to no primitive value.
\<close>

datatype 'v lookup = Own_value "'v js" | Inherited_member string | No_property

definition prop_get :: "'v object \<Rightarrow> string \<Rightarrow> 'v lookup" where
  "prop_get ob key =
     (case map_of (props ob) key of
        Some x \<Rightarrow> Own_value x
      | None \<Rightarrow>
          if prototype ob = Object_prototype \<and> key \<in> set prototype_members
          then Inherited_member key else No_property)"


text \<open>
  The value of a read where the code uses it as a value of the dictionary.  The code does
  so only at keys it has just enumerated or after \<^verbatim>\<open>has\<close>, where the read finds an own
  property (lemma \<open>prop_get_own_key\<close>), so the case of an inherited member, whose value
  is not one of the model, is not evaluated there.
\<close>

definition lookup_value :: "'v lookup \<Rightarrow> 'v js" where
  "lookup_value l = (case l of Own_value x \<Rightarrow> x | _ \<Rightarrow> Undefined)"

text \<open>Writing an own property: an existing property keeps its place, a new one is
  added last.\<close>

fun put_own :: "(string \<times> 'v js) list \<Rightarrow> string \<Rightarrow> 'v js \<Rightarrow> (string \<times> 'v js) list" where
  "put_own [] key value = [(key, value)]"
| "put_own ((k, x) # ps) key value =
     (if k = key then (k, value) # ps else (k, x) # put_own ps key value)"

text \<open>
  The write \<^verbatim>\<open>ob[key] = value\<close>.  It writes an own property, unless the key is
  \<^verbatim>\<open>__proto__\<close>, the object has no own property of that name and inherits the accessor:
  then the setter runs, which creates no property.
\<close>

definition prop_put :: "'v object \<Rightarrow> string \<Rightarrow> 'v js \<Rightarrow> 'v object" where
  "prop_put ob key value =
     (if key = ''__proto__'' \<and> \<not> hasOwn ob key \<and> prototype ob = Object_prototype
      then (case value of Null \<Rightarrow> Object No_prototype (props ob) | _ \<Rightarrow> ob)
      else Object (prototype ob) (put_own (props ob) key value))"

text \<open>\<^verbatim>\<open>delete ob[key]\<close>.\<close>

definition prop_delete :: "'v object \<Rightarrow> string \<Rightarrow> 'v object" where
  "prop_delete ob key = Object (prototype ob) (filter (\<lambda>p. fst p \<noteq> key) (props ob))"

text \<open>The two statements that mutate an object in the store.\<close>

definition assign :: "'v heap \<Rightarrow> ref \<Rightarrow> string \<Rightarrow> 'v js \<Rightarrow> 'v heap" where
  "assign h r key value = h[r := prop_put (deref h r) key value]"

definition delete :: "'v heap \<Rightarrow> ref \<Rightarrow> string \<Rightarrow> 'v heap" where
  "delete h r key = h[r := prop_delete (deref h r) key]"

section \<open>The mapping type (dict.ts)\<close>

text \<open>The optional argument of \<^verbatim>\<open>Dict\<close>: nothing, an existing \<^verbatim>\<open>Dict\<close>, or an array of
  pairs (told apart by \<^verbatim>\<open>!value\<close> and \<^verbatim>\<open>isArray(value)\<close>).\<close>

datatype 'v dict_source = NoValue | PairsValue "(string \<times> 'v js) list" | DictValue ref

fun Dict :: "'v heap \<Rightarrow> 'v dict_source \<Rightarrow> ref \<times> 'v heap" where
  "Dict h NoValue = alloc h empty_object"
| "Dict h (PairsValue value) =
     (let (map, h1) = alloc h empty_object
      in (map, fold (\<lambda>pair h'. assign h' map (first pair) (second pair)) value h1))"
| "Dict h (DictValue value) =
     (let (map, h1) = alloc h empty_object
      in (map, fold (\<lambda>key h'. assign h' map key (lookup_value (prop_get (deref h' value) key)))
                    (own_keys (deref h1 value)) h1))"

definition has :: "'v heap \<Rightarrow> ref \<Rightarrow> string \<Rightarrow> bool" where
  "has h dict key = hasOwn (deref h dict) key"

definition get :: "'v heap \<Rightarrow> ref \<Rightarrow> string \<Rightarrow> 'v js Maybe" where
  "get h dict key =
     (if has h dict key then Something (lookup_value (prop_get (deref h dict) key)) else Nothing)"



definition remove_dict :: "'v heap \<Rightarrow> ref \<Rightarrow> string \<Rightarrow> ref \<times> 'v heap" where
  "remove_dict h dict key =
     (if \<not> has h dict key then (dict, h)
      else let (copy, h1) = Dict h (DictValue dict)
           in (copy, delete h1 copy key))"






section \<open>The sequence type (list.ts, in the file collection/collection.ts)\<close>

text \<open>
  A \<^verbatim>\<open>List\<close> is a native array.  The accessors below only read their argument, so they
  take the array's elements; \<^verbatim>\<open>unique\<close> returns either its argument itself or a new
  array, so it works on a store of arrays.

  The element access \<^verbatim>\<open>list[i]\<close> never throws: at an index outside the array it evaluates
  to \<^verbatim>\<open>undefined\<close>.  The model keeps apart an access within the array, an access outside
  it, and the literal \<^verbatim>\<open>undefined\<close> that reads nothing; \<open>read_value\<close> is the run-time
  value of each.
\<close>

datatype 'a read = Literal_undefined | Within 'a | Outside

definition index :: "'a js list \<Rightarrow> int \<Rightarrow> 'a js read" where
  "index list i = (if 0 \<le> i \<and> i < int (length list) then Within (list ! nat i) else Outside)"

definition read_value :: "'a js read \<Rightarrow> 'a js" where
  "read_value r = (case r of Within x \<Rightarrow> x | _ \<Rightarrow> Undefined)"

text \<open>\<^verbatim>\<open>list.slice(start, stop)\<close> as ECMAScript defines it: a negative bound counts from
  the end, both bounds are clamped to the array, and an omitted \<open>stop\<close> is the length.\<close>

definition slice :: "'a list \<Rightarrow> int \<Rightarrow> int option \<Rightarrow> 'a list" where
  "slice list start stop =
     (let len = int (length list);
          k = (if start < 0 then max (len + start) 0 else min start len);
          relativeEnd = (case stop of None \<Rightarrow> len | Some e \<Rightarrow> e);
          final = (if relativeEnd < 0 then max (len + relativeEnd) 0 else min relativeEnd len)
      in take (nat (final - k)) (drop (nat k) list))"

text \<open>The argument of \<^verbatim>\<open>wrap\<close> in \<^verbatim>\<open>end\<close>, the expression
  \<^verbatim>\<open>isNone(list) ? undefined : list[list.length - 1]\<close>, and \<^verbatim>\<open>end\<close> itself.\<close>

definition end_read :: "'a js list \<Rightarrow> 'a js read" where
  "end_read list =
     (if isNone (Defined list) then Literal_undefined else index list (int (length list) - 1))"

definition end_list :: "'a js list \<Rightarrow> 'a js Maybe" where
  "end_list list = wrap (read_value (end_read list))"

definition front :: "'a list \<Rightarrow> 'a list" where
  "front list = slice list 0 (Some (- 1))"

text \<open>The argument of \<^verbatim>\<open>wrap\<close> in \<^verbatim>\<open>head\<close>, the expression
  \<^verbatim>\<open>isNone(list) ? undefined : list[0]\<close>, and \<^verbatim>\<open>head\<close> itself.\<close>

definition head_read :: "'a js list \<Rightarrow> 'a js read" where
  "head_read list = (if isNone (Defined list) then Literal_undefined else index list 0)"

definition head :: "'a js list \<Rightarrow> 'a js Maybe" where
  "head list = wrap (read_value (head_read list))"

definition tail :: "'a list \<Rightarrow> 'a list" where
  "tail list = slice list 1 None"

text \<open>\<^verbatim>\<open>copy.push(value)\<close> on an array of the store.\<close>

definition push :: "'a list list \<Rightarrow> ref \<Rightarrow> 'a \<Rightarrow> 'a list list" where
  "push h r value = h[r := deref h r @ [value]]"



section \<open>Notions of the specification\<close>

text \<open>
  A reference denotes a mapping of a store when it is allocated there, the keys of the
  object are unique and every value is defined.
\<close>

definition is_dict :: "'v heap \<Rightarrow> ref \<Rightarrow> bool" where
  "is_dict h dict \<longleftrightarrow>
     dict < length h \<and> distinct (own_keys (deref h dict)) \<and>
     list_all (\<lambda>p. \<not> isNone (snd p)) (props (deref h dict))"



text \<open>The first occurrence of each distinct value, in the original relative order.\<close>

fun first_occurrences :: "'a list \<Rightarrow> 'a list" where
  "first_occurrences [] = []"
| "first_occurrences (x # xs) = x # filter (\<lambda>y. y \<noteq> x) (first_occurrences xs)"




text \<open>The properties a copy of an object keeps: the write of an own \<^verbatim>\<open>__proto__\<close> entry
  into the copy reaches the setter.\<close>

definition drop_proto :: "(string \<times> 'v js) list \<Rightarrow> (string \<times> 'v js) list" where
  "drop_proto ps = filter (\<lambda>p. fst p \<noteq> ''__proto__'') ps"

section \<open>Objects, copies and edits\<close>



lemma put_own_fresh: "k \<notin> fst ` set ps \<Longrightarrow> put_own ps k v = ps @ [(k, v)]"
  by (induction ps k v rule: put_own.induct) auto



lemma prop_get_own:
  "distinct (own_keys ob) \<Longrightarrow> (k, v) \<in> set (props ob) \<Longrightarrow> prop_get ob k = Own_value v"
  by (simp add: prop_get_def own_keys_def)

lemma prop_get_own_key: "key \<in> set (own_keys ob) \<Longrightarrow> \<exists>x. prop_get ob key = Own_value x"
  by (cases "map_of (props ob) key") (auto simp: prop_get_def own_keys_def map_of_eq_None_iff)

lemma hasOwn_map_of: "hasOwn ob k \<longleftrightarrow> map_of (props ob) k \<noteq> None"
  by (simp add: hasOwn_def own_keys_def map_of_eq_None_iff)



lemma prop_put_plain:
  "k \<noteq> ''__proto__'' \<Longrightarrow> prop_put ob k v = Object (prototype ob) (put_own (props ob) k v)"
  by (simp add: prop_put_def)

lemma prop_put_setter:
  "\<not> hasOwn ob ''__proto__'' \<Longrightarrow> prototype ob = Object_prototype \<Longrightarrow> v \<noteq> Null \<Longrightarrow>
   prop_put ob ''__proto__'' v = ob"
  by (cases v) (simp_all add: prop_put_def)







lemma fold_put_keys:
  "distinct (map fst (acc @ ps)) \<Longrightarrow> ''__proto__'' \<notin> fst ` set acc \<Longrightarrow>
   (\<And>k v. (k, v) \<in> set ps \<Longrightarrow> f k = v \<and> v \<noteq> Null) \<Longrightarrow>
   fold (\<lambda>key ob. prop_put ob key (f key)) (map fst ps) (Object Object_prototype acc)
   = Object Object_prototype (acc @ drop_proto ps)"
proof (induction ps arbitrary: acc)
  case Nil
  then show ?case by (simp add: drop_proto_def)
next
  case (Cons p ps)
  obtain k v where p: "p = (k, v)" by (cases p)
  from Cons.prems(1) have fresh: "k \<notin> fst ` set acc"
    by (auto simp: p)
  from Cons.prems(3)[of k v] have fk: "f k = v" and v: "v \<noteq> Null"
    by (simp_all add: p)
  have rest: "f k' = v' \<and> v' \<noteq> Null" if "(k', v') \<in> set ps" for k' v'
    using Cons.prems(3)[of k' v'] that by simp
  show ?case
  proof (cases "k = ''__proto__''")
    case True
    have "\<not> hasOwn (Object Object_prototype acc) ''__proto__''"
      using Cons.prems(2) by (simp add: hasOwn_def own_keys_def)
    moreover from fk True have "f ''__proto__'' = v"
      by simp
    ultimately have step: "prop_put (Object Object_prototype acc) k (f k) = Object Object_prototype acc"
      using v by (simp add: True prop_put_setter)
    from Cons.prems(1) have "distinct (map fst (acc @ ps))"
      by simp
    from Cons.IH[OF this Cons.prems(2) rest] step True show ?thesis
      by (simp add: p drop_proto_def)
  next
    case False
    then have step: "prop_put (Object Object_prototype acc) k (f k)
        = Object Object_prototype (acc @ [(k, v)])"
      using fresh by (simp add: prop_put_plain put_own_fresh fk)
    from Cons.prems(1) have d: "distinct (map fst ((acc @ [p]) @ ps))"
      by simp
    from Cons.prems(2) False have n: "''__proto__'' \<notin> fst ` set (acc @ [p])"
      by (auto simp: p)
    from Cons.IH[OF d n rest] step False show ?thesis
      by (simp add: p drop_proto_def)
  qed
qed

lemma deref_alloc_new [simp]: "deref (h @ [c]) (length h) = c"
  by (simp add: deref_def)

lemma deref_alloc_old [simp]: "r < length h \<Longrightarrow> deref (h @ [c]) r = deref h r"
  by (simp add: deref_def nth_append)

lemma assign_new [simp]: "assign (h @ [c]) (length h) k v = h @ [prop_put c k v]"
  by (simp add: assign_def)

lemma delete_new [simp]: "delete (h @ [c]) (length h) k = h @ [prop_delete c k]"
  by (simp add: delete_def)


lemma fold_assign_copy:
  "dict < length h \<Longrightarrow>
   fold (\<lambda>key h'. assign h' (length h) key (g (deref h' dict) key)) ks (h @ [ob])
   = h @ [fold (\<lambda>key acc. prop_put acc key (g (deref h dict) key)) ks ob]"
  by (induction ks arbitrary: ob) simp_all

lemma is_dict_own:
  assumes "is_dict h d" and "(k, v) \<in> set (props (deref h d))"
  shows "lookup_value (prop_get (deref h d) k) = v \<and> v \<noteq> Null \<and> v \<noteq> Undefined"
proof -
  from assms have "prop_get (deref h d) k = Own_value v"
    by (simp add: is_dict_def prop_get_own)
  moreover from assms have "\<not> isNone v"
    by (auto simp: is_dict_def list_all_iff)
  ultimately show ?thesis
    by (auto simp: lookup_value_def isNone_def)
qed

lemma Dict_copy:
  assumes "is_dict h dict"
  shows "Dict h (DictValue dict)
     = (length h, h @ [Object Object_prototype (drop_proto (props (deref h dict)))])"
proof -
  from assms have v: "dict < length h" and d: "distinct (own_keys (deref h dict))"
    by (simp_all add: is_dict_def)
  have old: "deref (h @ [Object Object_prototype []]) dict = deref h dict"
    using v by simp
  have "fold (\<lambda>key ob. prop_put ob key (lookup_value (prop_get (deref h dict) key)))
          (map fst (props (deref h dict))) (Object Object_prototype [])
        = Object Object_prototype ([] @ drop_proto (props (deref h dict)))"
    by (rule fold_put_keys) (use d is_dict_own[OF assms] in \<open>auto simp: own_keys_def\<close>)
  then show ?thesis
    by (simp add: alloc_def old own_keys_def empty_object_def
        fold_assign_copy[OF v, where g = "\<lambda>ob key. lookup_value (prop_get ob key)"])
qed






lemma get_map_of:
  "get h m k = (case map_of (props (deref h m)) k of None \<Rightarrow> Nothing | Some x \<Rightarrow> Something x)"
  by (auto simp: get_def has_def hasOwn_map_of prop_get_def lookup_value_def split: option.splits)





lemma remove_dict_absent: "\<not> has h m k \<Longrightarrow> remove_dict h m k = (m, h)"
  by (simp add: remove_dict_def)

lemma remove_dict_present:
  "is_dict h m \<Longrightarrow> has h m k \<Longrightarrow>
   remove_dict h m k
     = (length h, h @ [prop_delete (Object Object_prototype (drop_proto (props (deref h m)))) k])"
  by (simp add: remove_dict_def Dict_copy del: Dict.simps)

lemma map_of_prop_delete: "map_of (props (prop_delete ob k)) = (map_of (props ob))(k := None)"
proof -
  have "map_of (filter (\<lambda>p. fst p \<noteq> k) ps) = (map_of ps)(k := None)" for ps :: "(string \<times> 'a js) list"
    by (induction ps) auto
  then show ?thesis by (simp add: prop_delete_def)
qed

section \<open>Reading after an edit\<close>




text \<open>
  C2.  For every mapping \<open>m\<close> and every key \<open>k\<close>, \<^verbatim>\<open>get(remove(m, k), k)\<close> is \<^verbatim>\<open>Nothing\<close>;
  and when \<open>k\<close> is absent from \<open>m\<close>, \<^verbatim>\<open>remove(m, k)\<close> returns \<open>m\<close> itself, and the store is
  as it was.
\<close>

theorem get_after_remove:
  assumes "is_dict h m" and "remove_dict h m k = (m', h')"
  shows "get h' m' k = Nothing \<and> (\<not> has h m k \<longrightarrow> m' = m \<and> h' = h)"
proof (cases "has h m k")
  case True
  with assms have "m' = length h"
    "h' = h @ [prop_delete (Object Object_prototype (drop_proto (props (deref h m)))) k]"
    by (simp_all add: remove_dict_present)
  with True show ?thesis
    by (simp add: get_map_of map_of_prop_delete)
next
  case False
  with assms(2) have "m' = m" "h' = h" by (simp_all add: remove_dict_absent)
  with False show ?thesis by (simp add: get_def)
qed

theorem get_after_remove_witness:
  "is_dict [Object Object_prototype [(''a'', Defined (1::nat)), (''b'', Defined 2)]] 0 \<and>
   remove_dict [Object Object_prototype [(''a'', Defined (1::nat)), (''b'', Defined 2)]] 0 ''a''
     = (1, [Object Object_prototype [(''a'', Defined 1), (''b'', Defined 2)],
            Object Object_prototype [(''b'', Defined 2)]]) \<and>
   get [Object Object_prototype [(''a'', Defined (1::nat)), (''b'', Defined 2)],
        Object Object_prototype [(''b'', Defined 2)]] 1 ''a'' = Nothing \<and>
   \<not> has [Object Object_prototype [(''a'', Defined (1::nat)), (''b'', Defined 2)]] 0 ''c'' \<and>
   remove_dict [Object Object_prototype [(''a'', Defined (1::nat)), (''b'', Defined 2)]] 0 ''c''
     = (0, [Object Object_prototype [(''a'', Defined 1), (''b'', Defined 2)]])"
proof -
  let ?h = "[Object Object_prototype [(''a'', Defined (1::nat)), (''b'', Defined 2)]]"
  have d: "is_dict ?h 0"
    by code_simp
  have r: "remove_dict ?h 0 ''a''
     = (1, [Object Object_prototype [(''a'', Defined 1), (''b'', Defined 2)],
            Object Object_prototype [(''b'', Defined 2)]])"
    by code_simp
  have a: "\<not> has ?h 0 ''c''"
    by code_simp
  obtain m' h' where c: "remove_dict ?h 0 ''c'' = (m', h')"
    by (cases "remove_dict ?h 0 ''c''")
  from get_after_remove[OF d r] get_after_remove[OF d c] d r a c show ?thesis
    by simp
qed







section \<open>Accessors of a sequence\<close>

lemma front_butlast: "front s = butlast s"
  by (simp add: front_def slice_def butlast_conv_take max_def nat_diff_distrib')

lemma tail_tl: "tail s = tl s"
  by (cases s) (simp_all add: tail_def slice_def min_def)

lemma isNone_Defined [simp]: "\<not> isNone (Defined x)"
  by (simp add: isNone_def)

lemma head_read_Nil: "head_read [] = Outside"
  by (simp add: head_read_def index_def)

lemma end_read_Nil: "end_read [] = Outside"
  by (simp add: end_read_def index_def)

lemma head_read_Cons: "s \<noteq> [] \<Longrightarrow> head_read s = Within (hd s)"
  by (simp add: head_read_def index_def hd_conv_nth)

lemma end_read_Cons: "s \<noteq> [] \<Longrightarrow> end_read s = Within (last s)"
  by (cases s rule: rev_cases) (simp_all add: end_read_def index_def nth_append)

text \<open>
  C8 (as amended).  For every sequence \<open>s\<close>: \<^verbatim>\<open>head(s)\<close> and \<^verbatim>\<open>end(s)\<close> are
  \<^verbatim>\<open>Nothing\<close> when \<open>s\<close> is empty, and \<^verbatim>\<open>Something\<close> of the first and of the last element
  when \<open>s\<close> is non-empty and these elements are defined; the element access they make is
  then within the array.  Neither throws.  On the empty sequence there is no check of the
  length: the access is made at index \<open>0\<close>, respectively \<open>-1\<close>, outside the array, where it
  evaluates to \<^verbatim>\<open>undefined\<close>, and \<^verbatim>\<open>wrap\<close> turns that into \<^verbatim>\<open>Nothing\<close>.
\<close>

theorem head_end_values:
  "(s = [] \<longrightarrow> head s = Nothing \<and> end_list s = Nothing \<and>
      head_read s = Outside \<and> end_read s = Outside) \<and>
   (s \<noteq> [] \<and> \<not> isNone (hd s) \<and> \<not> isNone (last s) \<longrightarrow>
      head s = Something (hd s) \<and> end_list s = Something (last s) \<and>
      head_read s = Within (hd s) \<and> end_read s = Within (last s))"
  by (auto simp: head_def end_list_def head_read_Nil end_read_Nil head_read_Cons end_read_Cons
      read_value_def wrap_def isNone_def)

theorem head_end_values_witness:
  "head ([] :: nat js list) = Nothing \<and> end_list ([] :: nat js list) = Nothing \<and>
   head_read ([] :: nat js list) = Outside \<and> end_read ([] :: nat js list) = Outside \<and>
   head [Defined (1::nat), Defined 2] = Something (Defined 1) \<and>
   end_list [Defined (1::nat), Defined 2] = Something (Defined 2) \<and>
   head_read [Defined (1::nat), Defined 2] = Within (Defined 1) \<and>
   end_read [Defined (1::nat), Defined 2] = Within (Defined 2)"
  using head_end_values[of "[] :: nat js list"] head_end_values[of "[Defined (1::nat), Defined 2]"]
  by (simp add: isNone_def)

text \<open>
  The claim as stated says that \<^verbatim>\<open>head\<close> and \<^verbatim>\<open>end\<close> never index out of bounds.  On
  the empty sequence both do: the access they make is outside the array.
\<close>

theorem head_end_read_outside: "head_read ([] :: nat js list) = Outside \<and> end_read ([] :: nat js list) = Outside"
  by (simp add: head_read_Nil end_read_Nil)

text \<open>
  C9.  For every sequence \<open>s\<close> with at least two elements, \<^verbatim>\<open>front(tail(s))\<close> equals
  \<^verbatim>\<open>tail(front(s))\<close>; and for every \<open>s\<close> of length 0 or 1, \<^verbatim>\<open>front(s)\<close> and
  \<^verbatim>\<open>tail(s)\<close> are both the empty sequence.
\<close>

theorem front_tail_commute:
  "(2 \<le> length s \<longrightarrow> front (tail s) = tail (front s)) \<and>
   (length s \<le> 1 \<longrightarrow> front s = [] \<and> tail s = [])"
proof (intro conjI impI)
  show "front (tail s) = tail (front s)"
    by (simp add: front_butlast tail_tl butlast_tl)
next
  assume "length s \<le> 1"
  then have "s = [] \<or> (\<exists>x. s = [x])"
    by (cases s) auto
  then show "front s = []" "tail s = []"
    by (auto simp: front_butlast tail_tl)
qed

theorem front_tail_commute_witness:
  "front (tail [1, 2, 3 :: nat]) = [2] \<and> tail (front [1, 2, 3 :: nat]) = [2] \<and>
   front [7 :: nat] = [] \<and> tail [7 :: nat] = [] \<and>
   front ([] :: nat list) = [] \<and> tail ([] :: nat list) = []"
proof -
  have f: "front (tail [1, 2, 3 :: nat]) = [2]"
    by code_simp
  from f front_tail_commute[of "[1, 2, 3 :: nat]"] front_tail_commute[of "[7 :: nat]"]
    front_tail_commute[of "[] :: nat list"]
  show ?thesis
    by simp
qed

section \<open>Deduplication\<close>

lemma first_occurrences_set [simp]: "set (first_occurrences xs) = set xs"
  by (induction xs) auto

lemma first_occurrences_distinct [simp]: "distinct (first_occurrences xs)"
  by (induction xs) auto



lemma push_new [simp]: "push (h @ [c]) (length h) v = h @ [c @ [v]]"
  by (simp add: push_def deref_def)





section \<open>Grouping\<close>















section \<open>Identity preservation\<close>













section \<open>Merging\<close>


lemma is_dict_prefix: "prefix h h' \<Longrightarrow> is_dict h d \<Longrightarrow> is_dict h' d"
  by (auto simp: prefix_def is_dict_def deref_def nth_append)























end
